theory Spec2Isabelle
  imports Complex_Main "HOL-Library.AList"
begin

section \<open>Graph model (types.ts)\<close>

text \<open>
  The interfaces of the graph model become records. Record fields are global constants
  in HOL, so the fields of each interface carry a short prefix: \<open>fn_\<close> for
  \<^verbatim>\<open>FlowNode\<close>, \<open>fe_\<close> for \<^verbatim>\<open>FlowEdge\<close>, \<open>ed_\<close> for \<^verbatim>\<open>EdgeData\<close>,
  \<open>pos_\<close> for the \<^verbatim>\<open>{x, y}\<close> position object. An optional field
  (\<^verbatim>\<open>highlighted?: boolean\<close>) is an \<open>option\<close>, \<open>None\<close> standing for
  \<^verbatim>\<open>undefined\<close>. A JavaScript \<^verbatim>\<open>number\<close> is idealised as a \<open>real\<close>. The
  open-ended \<^verbatim>\<open>tags: Record<string, unknown>\<close> is a type parameter. All records
  are used at their extensible (scheme) types, so that an object spread
  \<^verbatim>\<open>{...node, position: p}\<close>, which keeps every other property of the object, is the
  record update \<open>node\<lparr>fn_position := p\<rparr>\<close>.
\<close>

record XYPosition =
  pos_x :: real
  pos_y :: real

datatype SpanStatus = Success | Error

record 't NodeData =
  spanId :: string
  operationName :: string
  serviceName :: string
  duration :: real
  startTime :: real
  status :: SpanStatus
  tags :: 't
  highlighted :: "bool option"

record 't FlowNode =
  fn_id :: string
  fn_type :: string
  fn_position :: XYPosition
  fn_data :: "'t NodeData"

record EdgeData =
  ed_type :: string
  ed_latencyMs :: "real option"

record FlowEdge =
  fe_id :: string
  fe_source :: string
  fe_target :: string
  fe_data :: "EdgeData option"
  fe_animated :: "bool option"

section \<open>Layout (graph/layout.ts)\<close>

definition NODE_WIDTH :: real where
  "NODE_WIDTH = 220"

definition NODE_HEIGHT :: real where
  "NODE_HEIGHT = 80"

datatype direction = TB | LR | BT | RL

record LayoutOptions =
  opt_direction :: "direction option"
  opt_nodeSpacing :: "real option"
  opt_rankSpacing :: "real option"

subsection \<open>The interface to the dagre library\<close>

text \<open>
  \<^verbatim>\<open>applyDagreLayout\<close> delegates the placement to the third-party library dagre,
  whose code is not part of the repository. The wrapper talks to it in a fixed order:
  it creates a fresh graph, sets the graph label (\<^verbatim>\<open>setGraph\<close>), registers one
  label \<^verbatim>\<open>{width, height}\<close> per node (\<^verbatim>\<open>setNode\<close>), registers one pair
  per edge (\<^verbatim>\<open>setEdge\<close>), runs \<^verbatim>\<open>dagre.layout\<close> and finally reads
  \<^verbatim>\<open>dagreGraph.node(id)\<close>. The library is therefore a parameter of the model: a
  function from the graph label, the list of \<^verbatim>\<open>setNode\<close> calls and the list of
  \<^verbatim>\<open>setEdge\<close> calls to either an exception thrown by the library (\<open>Inl\<close>) or the
  lookup \<^verbatim>\<open>dagreGraph.node\<close> as it stands after the layout run (\<open>Inr\<close>), where
  \<open>None\<close> is \<^verbatim>\<open>undefined\<close> and a label carries the centre coordinates that
  \<^verbatim>\<open>dagre.layout\<close> wrote into it.
\<close>

record GraphLabel =
  rankdir :: direction
  nodesep :: real
  ranksep :: real
  marginx :: real
  marginy :: real

record NodeLabel =
  width :: real
  height :: real

record PositionedLabel = NodeLabel +
  label_x :: real
  label_y :: real

type_synonym 'e dagre =
  "GraphLabel \<Rightarrow> (string \<times> NodeLabel) list \<Rightarrow> (string \<times> string) list
     \<Rightarrow> 'e + (string \<rightharpoonup> PositionedLabel)"

subsection \<open>applyDagreLayout\<close>

text \<open>
  The outcomes of a call: an exception of the library, passed through unchanged, or the
  \<^verbatim>\<open>TypeError\<close> that JavaScript raises when \<^verbatim>\<open>nodeWithPosition.x\<close> reads a
  property of \<^verbatim>\<open>undefined\<close>. The source defines no error of its own.
\<close>

datatype 'e layout_error = DagreError 'e | TypeError

record ('t, 'm) LayoutResult =
  res_nodes :: "('t, 'm) FlowNode_scheme list"
  res_edges :: "FlowEdge list"

text \<open>
  Lines 190--205: the destructuring of \<^verbatim>\<open>options\<close> (itself defaulting to
  \<^verbatim>\<open>{}\<close>) with the defaults \<^verbatim>\<open>'TB'\<close>, 50 and 80, and the graph label
  handed to \<^verbatim>\<open>setGraph\<close>.
\<close>

definition graphLabel :: "LayoutOptions option \<Rightarrow> GraphLabel" where
  "graphLabel options =
     (let opts = (case options of
                    None \<Rightarrow> \<lparr>opt_direction = None, opt_nodeSpacing = None, opt_rankSpacing = None\<rparr>
                  | Some given \<Rightarrow> given);
          direction = (case opt_direction opts of None \<Rightarrow> TB | Some d \<Rightarrow> d);
          nodeSpacing = (case opt_nodeSpacing opts of None \<Rightarrow> 50 | Some s \<Rightarrow> s);
          rankSpacing = (case opt_rankSpacing opts of None \<Rightarrow> 80 | Some s \<Rightarrow> s)
      in \<lparr>rankdir = direction, nodesep = nodeSpacing, ranksep = rankSpacing,
          marginx = 20, marginy = 20\<rparr>)"

text \<open>Lines 208--213 and 216--218: the two \<^verbatim>\<open>forEach\<close> loops.\<close>

definition setNodeCalls :: "('t, 'm) FlowNode_scheme list \<Rightarrow> (string \<times> NodeLabel) list" where
  "setNodeCalls ns = map (\<lambda>node. (fn_id node, \<lparr>width = NODE_WIDTH, height = NODE_HEIGHT\<rparr>)) ns"

definition setEdgeCalls :: "FlowEdge list \<Rightarrow> (string \<times> string) list" where
  "setEdgeCalls es = map (\<lambda>edge. (fe_source edge, fe_target edge)) es"

text \<open>
  Lines 224--234: \<^verbatim>\<open>nodes.map\<close>. The callback throws as soon as the lookup of a
  node id yields \<^verbatim>\<open>undefined\<close>, which aborts the whole map.
\<close>

fun layoutedNodes ::
  "(string \<rightharpoonup> PositionedLabel) \<Rightarrow> ('t, 'm) FlowNode_scheme list
     \<Rightarrow> 'e layout_error + ('t, 'm) FlowNode_scheme list" where
  "layoutedNodes nodeOf [] = Inr []"
| "layoutedNodes nodeOf (node # rest) =
     (case nodeOf (fn_id node) of
        None \<Rightarrow> Inl TypeError
      | Some nodeWithPosition \<Rightarrow>
          (case layoutedNodes nodeOf rest of
             Inl err \<Rightarrow> Inl err
           | Inr placed \<Rightarrow>
               Inr (node\<lparr>fn_position :=
                           \<lparr>pos_x = label_x nodeWithPosition - NODE_WIDTH / 2,
                            pos_y = label_y nodeWithPosition - NODE_HEIGHT / 2\<rparr>\<rparr> # placed)))"

definition applyDagreLayout ::
  "'e dagre \<Rightarrow> ('t, 'm) FlowNode_scheme list \<Rightarrow> FlowEdge list \<Rightarrow> LayoutOptions option
     \<Rightarrow> 'e layout_error + ('t, 'm) LayoutResult" where
  "applyDagreLayout dagre ns es options =
     (case dagre (graphLabel options) (setNodeCalls ns) (setEdgeCalls es) of
        Inl thrown \<Rightarrow> Inl (DagreError thrown)
      | Inr nodeOf \<Rightarrow>
          (case layoutedNodes nodeOf ns of
             Inl err \<Rightarrow> Inl err
           | Inr placed \<Rightarrow> Inr \<lparr>res_nodes = placed, res_edges = es\<rparr>))"

text \<open>
  Lines 242--248. The parameter \<^verbatim>\<open>direction\<close> defaults to \<^verbatim>\<open>'TB'\<close> when it is
  omitted.
\<close>

definition getLayoutedElements ::
  "'e dagre \<Rightarrow> ('t, 'm) FlowNode_scheme list \<Rightarrow> FlowEdge list \<Rightarrow> direction option
     \<Rightarrow> 'e layout_error + ('t, 'm) LayoutResult" where
  "getLayoutedElements dagre ns es dir =
     applyDagreLayout dagre ns es
       (Some \<lparr>opt_direction = Some (case dir of None \<Rightarrow> TB | Some d \<Rightarrow> d),
              opt_nodeSpacing = None, opt_rankSpacing = None\<rparr>)"

section \<open>Highlight overlay (components/FlowCanvas.tsx)\<close>

text \<open>
  The canvas keeps its nodes and edges in the presentation library's own shapes
  (\<^verbatim>\<open>Node<NodeData>\<close> and \<^verbatim>\<open>Edge\<close>), with the prefixes \<open>rn_\<close> and
  \<open>re_\<close> here. A style object is an association list from property names to values,
  in the order of the object's keys: spreading it and then assigning a property is
  \<^const>\<open>AList.update\<close>, which replaces the value of a key in place and appends a new
  key at the end.
\<close>

datatype css_value = CssString string | CssNumber real

type_synonym CSSProperties = "(string \<times> css_value) list"

record 't RFNode =
  rn_id :: string
  rn_type :: "string option"
  rn_position :: XYPosition
  rn_data :: "'t NodeData"

record RFEdge =
  re_id :: string
  re_source :: string
  re_target :: string
  re_animated :: "bool option"
  re_style :: "CSSProperties option"

text \<open>
  Lines 55--71: the conversion of the laid-out graph. \<^verbatim>\<open>node.type || 'span'\<close>
  replaces the empty string, the only falsy string, by \<^verbatim>\<open>'span'\<close>.
\<close>

definition rfNodes :: "('t, 'm) FlowNode_scheme list \<Rightarrow> 't RFNode list" where
  "rfNodes layoutedNs =
     map (\<lambda>node. \<lparr>rn_id = fn_id node,
                   rn_type = Some (if fn_type node = [] then ''span'' else fn_type node),
                   rn_position = fn_position node,
                   rn_data = fn_data node\<rparr>) layoutedNs"

definition rfEdges :: "FlowEdge list \<Rightarrow> RFEdge list" where
  "rfEdges layoutedEs =
     map (\<lambda>edge. \<lparr>re_id = fe_id edge,
                   re_source = fe_source edge,
                   re_target = fe_target edge,
                   re_animated = fe_animated edge,
                   re_style = Some [(''stroke'', CssString ''#30363d''),
                                    (''strokeWidth'', CssNumber 2)]\<rparr>) layoutedEs"

text \<open>
  Lines 78--86. \<^verbatim>\<open>highlightedNodes.includes(node.id)\<close> is membership in the list.
\<close>

definition styledNodes ::
  "string list \<Rightarrow> ('t, 'm) RFNode_scheme list \<Rightarrow> ('t, 'm) RFNode_scheme list" where
  "styledNodes highlightedNodes ns =
     map (\<lambda>node. node\<lparr>rn_data :=
                          (rn_data node)\<lparr>highlighted := Some (rn_id node \<in> set highlightedNodes)\<rparr>\<rparr>)
         ns"

text \<open>
  Lines 88--98. \<^verbatim>\<open>...edge.style\<close> spreads nothing when the style is
  \<^verbatim>\<open>undefined\<close>. \<^verbatim>\<open>a || b\<close> is \<^verbatim>\<open>a\<close> when \<^verbatim>\<open>a\<close> is true and
  \<^verbatim>\<open>b\<close> itself otherwise, so an edge that is not highlighted keeps its
  \<^verbatim>\<open>animated\<close> as it was, \<^verbatim>\<open>undefined\<close> included.
\<close>

definition styledEdges ::
  "string list \<Rightarrow> 'm RFEdge_scheme list \<Rightarrow> 'm RFEdge_scheme list" where
  "styledEdges highlightedEdges es =
     map (\<lambda>edge. edge\<lparr>
            re_style := Some
              (AList.update ''strokeWidth''
                 (CssNumber (if re_id edge \<in> set highlightedEdges then 3 else 2))
                 (AList.update ''stroke''
                    (CssString (if re_id edge \<in> set highlightedEdges
                                then ''#d29922'' else ''#30363d''))
                    (case re_style edge of None \<Rightarrow> [] | Some style \<Rightarrow> style))),
            re_animated :=
              (if re_id edge \<in> set highlightedEdges then Some True else re_animated edge)\<rparr>)
         es"

text \<open>JavaScript truthiness of an optional boolean.\<close>

definition truthy :: "bool option \<Rightarrow> bool" where
  "truthy flag = (flag = Some True)"

section \<open>Concrete inputs\<close>

text \<open>
  A stand-in for the layout library, used only to run the wrapper on concrete inputs:
  it throws nothing and reports, for every id registered with \<^verbatim>\<open>setNode\<close>, a
  centre at the margin plus half the registered footprint. Ids that occur in edges
  only get no label, as a graph that creates a missing endpoint without a label would
  have it.
\<close>

definition stubDagre :: "unit dagre" where
  "stubDagre label nodeCalls edgeCalls =
     Inr (map_of (map (\<lambda>(v, l). (v, \<lparr>width = width l, height = height l,
                                      label_x = marginx label + width l / 2,
                                      label_y = marginy label + height l / 2\<rparr>))
                      nodeCalls))"

definition spanNode :: "string \<Rightarrow> unit FlowNode" where
  "spanNode ident =
     \<lparr>fn_id = ident, fn_type = ''span'', fn_position = \<lparr>pos_x = 0, pos_y = 0\<rparr>,
      fn_data = \<lparr>spanId = ident, operationName = ''GET /'', serviceName = ''api'',
                 duration = 12, startTime = 0, status = Success, tags = (),
                 highlighted = None\<rparr>\<rparr>"

definition callEdge :: "string \<Rightarrow> string \<Rightarrow> string \<Rightarrow> FlowEdge" where
  "callEdge ident src tgt =
     \<lparr>fe_id = ident, fe_source = src, fe_target = tgt, fe_data = None, fe_animated = None\<rparr>"

section \<open>Properties of the layout wrapper\<close>

subsection \<open>What a call returns\<close>

text \<open>
  The map over the nodes succeeds exactly when the library's lookup has a label for
  every node id; \<open>220 / 2\<close> and \<open>80 / 2\<close> are written as the numbers they are.
\<close>

lemma layoutedNodes_all_labelled:
  "fn_id ` set ns \<subseteq> dom nodeOf \<Longrightarrow>
   layoutedNodes nodeOf ns =
     Inr (map (\<lambda>node. node\<lparr>fn_position :=
                \<lparr>pos_x = label_x (the (nodeOf (fn_id node))) - 110,
                 pos_y = label_y (the (nodeOf (fn_id node))) - 40\<rparr>\<rparr>) ns)"
  by (induction ns) (auto simp: NODE_WIDTH_def NODE_HEIGHT_def)

lemma layoutedNodes_unlabelled:
  "\<not> fn_id ` set ns \<subseteq> dom nodeOf \<Longrightarrow>
   (layoutedNodes nodeOf (ns :: ('t, 'm) FlowNode_scheme list)
      :: 'e layout_error + ('t, 'm) FlowNode_scheme list) = Inl TypeError"
proof (induction ns)
  case Nil
  then show ?case by simp
next
  case (Cons node rest)
  show ?case
  proof (cases "nodeOf (fn_id node)")
    case None
    then show ?thesis by simp
  next
    case (Some l)
    with Cons.prems have "\<not> fn_id ` set rest \<subseteq> dom nodeOf" by auto
    then have "layoutedNodes nodeOf rest = (Inl TypeError :: 'e layout_error + ('t, 'm) FlowNode_scheme list)"
      by (rule Cons.IH)
    with Some show ?thesis by simp
  qed
qed

lemma applyDagreLayout_cases:
  "applyDagreLayout dagre ns es options =
     (case dagre (graphLabel options) (setNodeCalls ns) (setEdgeCalls es) of
        Inl thrown \<Rightarrow> Inl (DagreError thrown)
      | Inr nodeOf \<Rightarrow>
          if fn_id ` set ns \<subseteq> dom nodeOf
          then Inr \<lparr>res_nodes = map (\<lambda>node. node\<lparr>fn_position :=
                        \<lparr>pos_x = label_x (the (nodeOf (fn_id node))) - 110,
                         pos_y = label_y (the (nodeOf (fn_id node))) - 40\<rparr>\<rparr>) ns,
                    res_edges = es\<rparr>
          else Inl TypeError)"
  by (simp add: applyDagreLayout_def layoutedNodes_all_labelled layoutedNodes_unlabelled
           split: sum.splits)

subsection \<open>Edges that name unknown nodes\<close>

text \<open>
  Claim C1, as stated, fails. The node list has the single node \<open>A\<close> and the edge
  \<open>e1\<close> runs from \<open>A\<close> to \<open>ghost\<close>, an id that no node has; with a library that
  lays out what was registered, the call returns normally and \<open>A\<close> has its position.
\<close>

theorem dangling_edge_counterexample:
  "fe_target (callEdge ''e1'' ''A'' ''ghost'') \<notin> set (map fn_id [spanNode ''A'']) \<and>
   applyDagreLayout stubDagre [spanNode ''A''] [callEdge ''e1'' ''A'' ''ghost''] None =
     Inr \<lparr>res_nodes = [(spanNode ''A'')\<lparr>fn_position := \<lparr>pos_x = 20, pos_y = 20\<rparr>\<rparr>],
          res_edges = [callEdge ''e1'' ''A'' ''ghost'']\<rparr>"
  by (simp add: applyDagreLayout_def graphLabel_def setNodeCalls_def setEdgeCalls_def
        stubDagre_def NODE_WIDTH_def NODE_HEIGHT_def spanNode_def callEdge_def)

text \<open>
  Claim C1, amended. \<^verbatim>\<open>applyDagreLayout\<close> has no referential-integrity check and
  no error of that name: when an edge names an id that no node has, the pair
  \<open>(source, target)\<close> still goes to the library as it is, and the call ends in one of
  three ways only. It passes on an exception of the library; it raises a
  \<^verbatim>\<open>TypeError\<close> when the library's lookup has no label for some node id; otherwise it
  returns a position for every node and the edge list as it was.
\<close>

theorem dangling_edge_forwarded:
  assumes "\<exists>edge \<in> set es. fe_source edge \<notin> fn_id ` set ns \<or> fe_target edge \<notin> fn_id ` set ns"
  shows "applyDagreLayout dagre ns es options =
     (case dagre (graphLabel options) (setNodeCalls ns)
             (map (\<lambda>edge. (fe_source edge, fe_target edge)) es) of
        Inl thrown \<Rightarrow> Inl (DagreError thrown)
      | Inr nodeOf \<Rightarrow>
          if fn_id ` set ns \<subseteq> dom nodeOf
          then Inr \<lparr>res_nodes = map (\<lambda>node. node\<lparr>fn_position :=
                        \<lparr>pos_x = label_x (the (nodeOf (fn_id node))) - 110,
                         pos_y = label_y (the (nodeOf (fn_id node))) - 40\<rparr>\<rparr>) ns,
                    res_edges = es\<rparr>
          else Inl TypeError)"
  by (simp add: applyDagreLayout_cases setEdgeCalls_def)

theorem dangling_edge_forwarded_witness:
  "(\<exists>edge \<in> set [callEdge ''e1'' ''A'' ''ghost''].
      fe_source edge \<notin> fn_id ` set [spanNode ''A''] \<or>
      fe_target edge \<notin> fn_id ` set [spanNode ''A'']) \<and>
   applyDagreLayout stubDagre [spanNode ''A''] [callEdge ''e1'' ''A'' ''ghost''] None =
     Inr \<lparr>res_nodes = [(spanNode ''A'')\<lparr>fn_position := \<lparr>pos_x = 20, pos_y = 20\<rparr>\<rparr>],
          res_edges = [callEdge ''e1'' ''A'' ''ghost'']\<rparr>"
proof -
  have dangling: "\<exists>edge \<in> set [callEdge ''e1'' ''A'' ''ghost''].
      fe_source edge \<notin> fn_id ` set [spanNode ''A''] \<or>
      fe_target edge \<notin> fn_id ` set [spanNode ''A'']"
    by (simp add: callEdge_def spanNode_def)
  show ?thesis
    using dangling dangling_edge_forwarded [OF dangling, of stubDagre None]
    by (simp add: graphLabel_def setNodeCalls_def stubDagre_def NODE_WIDTH_def NODE_HEIGHT_def
          spanNode_def callEdge_def)
qed

subsection \<open>Options\<close>

text \<open>
  Claim C3, as stated, fails. With \<^verbatim>\<open>nodeSpacing\<close> \<open>-5\<close> and
  \<^verbatim>\<open>rankSpacing\<close> \<open>0\<close> the call reaches the library and returns its layout.
\<close>

theorem spacing_counterexample:
  "(-5 :: real) \<le> 0 \<and> (0 :: real) \<le> 0 \<and>
   applyDagreLayout stubDagre [spanNode ''A''] []
     (Some \<lparr>opt_direction = None, opt_nodeSpacing = Some (-5), opt_rankSpacing = Some 0\<rparr>) =
     Inr \<lparr>res_nodes = [(spanNode ''A'')\<lparr>fn_position := \<lparr>pos_x = 20, pos_y = 20\<rparr>\<rparr>],
          res_edges = []\<rparr>"
  by (simp add: applyDagreLayout_def graphLabel_def setNodeCalls_def setEdgeCalls_def
        stubDagre_def NODE_WIDTH_def NODE_HEIGHT_def spanNode_def)

text \<open>
  Claim C3, amended. \<^verbatim>\<open>applyDagreLayout\<close> validates nothing. The direction is one
  of the four values by its type. A spacing that is zero or negative is handed to the
  library unchanged, as \<^verbatim>\<open>nodesep\<close> or \<^verbatim>\<open>ranksep\<close> of the graph label next to
  the margins 20 and 20, and the call ends as the library's run on that label makes it
  end.
\<close>

theorem options_forwarded_unvalidated:
  assumes "(\<exists>s. opt_nodeSpacing given = Some s \<and> s \<le> 0) \<or>
           (\<exists>s. opt_rankSpacing given = Some s \<and> s \<le> 0)"
  shows "applyDagreLayout dagre ns es (Some given) =
     (case dagre \<lparr>rankdir = (case opt_direction given of None \<Rightarrow> TB | Some d \<Rightarrow> d),
                  nodesep = (case opt_nodeSpacing given of None \<Rightarrow> 50 | Some s \<Rightarrow> s),
                  ranksep = (case opt_rankSpacing given of None \<Rightarrow> 80 | Some s \<Rightarrow> s),
                  marginx = 20, marginy = 20\<rparr>
             (setNodeCalls ns) (setEdgeCalls es) of
        Inl thrown \<Rightarrow> Inl (DagreError thrown)
      | Inr nodeOf \<Rightarrow>
          if fn_id ` set ns \<subseteq> dom nodeOf
          then Inr \<lparr>res_nodes = map (\<lambda>node. node\<lparr>fn_position :=
                        \<lparr>pos_x = label_x (the (nodeOf (fn_id node))) - 110,
                         pos_y = label_y (the (nodeOf (fn_id node))) - 40\<rparr>\<rparr>) ns,
                    res_edges = es\<rparr>
          else Inl TypeError)"
  by (simp add: applyDagreLayout_cases graphLabel_def)

theorem options_forwarded_unvalidated_witness:
  "((\<exists>s. opt_nodeSpacing \<lparr>opt_direction = Some RL, opt_nodeSpacing = Some (-5),
                          opt_rankSpacing = Some 0\<rparr> = Some s \<and> s \<le> 0) \<or>
    (\<exists>s. opt_rankSpacing \<lparr>opt_direction = Some RL, opt_nodeSpacing = Some (-5),
                          opt_rankSpacing = Some 0\<rparr> = Some s \<and> s \<le> 0)) \<and>
   applyDagreLayout stubDagre [spanNode ''A''] []
     (Some \<lparr>opt_direction = Some RL, opt_nodeSpacing = Some (-5), opt_rankSpacing = Some 0\<rparr>) =
     Inr \<lparr>res_nodes = [(spanNode ''A'')\<lparr>fn_position := \<lparr>pos_x = 20, pos_y = 20\<rparr>\<rparr>],
          res_edges = []\<rparr>"
proof -
  have nonpos: "(\<exists>s. opt_nodeSpacing \<lparr>opt_direction = Some RL, opt_nodeSpacing = Some (-5),
                          opt_rankSpacing = Some 0\<rparr> = Some s \<and> s \<le> 0) \<or>
    (\<exists>s. opt_rankSpacing \<lparr>opt_direction = Some RL, opt_nodeSpacing = Some (-5),
                          opt_rankSpacing = Some 0\<rparr> = Some s \<and> s \<le> 0)"
    by simp
  show ?thesis
    using nonpos options_forwarded_unvalidated [OF nonpos, of stubDagre "[spanNode ''A'']" "[]"]
    by (simp add: setNodeCalls_def setEdgeCalls_def stubDagre_def NODE_WIDTH_def NODE_HEIGHT_def
          spanNode_def)
qed

text \<open>
  Claim C6. A call without options, and a call with some of the three fields omitted,
  is the call with \<^verbatim>\<open>'TB'\<close>, 50 and 80 in the place of what was omitted.
\<close>

theorem layout_option_defaults:
  "applyDagreLayout dagre ns es None =
     applyDagreLayout dagre ns es
       (Some \<lparr>opt_direction = Some TB, opt_nodeSpacing = Some 50, opt_rankSpacing = Some 80\<rparr>) \<and>
   applyDagreLayout dagre ns es (Some given) =
     applyDagreLayout dagre ns es
       (Some \<lparr>opt_direction = Some (case opt_direction given of None \<Rightarrow> TB | Some d \<Rightarrow> d),
              opt_nodeSpacing = Some (case opt_nodeSpacing given of None \<Rightarrow> 50 | Some s \<Rightarrow> s),
              opt_rankSpacing = Some (case opt_rankSpacing given of None \<Rightarrow> 80 | Some s \<Rightarrow> s)\<rparr>)"
  by (simp add: applyDagreLayout_def graphLabel_def)

subsection \<open>The returned graph\<close>

text \<open>
  Claim C4. When the library's run completes and its lookup has a label for every node
  id, the call returns; the returned node list has the length and the order of the
  input, each returned node is the input node at the same index with only
  \<^verbatim>\<open>position\<close> replaced, and the returned edge list is the input edge list. The
  nodes themselves never reach the library, which is given their ids and fresh
  \<^verbatim>\<open>{width, height}\<close> labels only, and the result is built from new objects.
\<close>

theorem layout_keeps_nodes_and_edges:
  assumes "dagre (graphLabel options) (setNodeCalls ns) (setEdgeCalls es) = Inr nodeOf"
    and "fn_id ` set ns \<subseteq> dom nodeOf"
  shows "\<exists>r. applyDagreLayout dagre ns es options = Inr r \<and>
           length (res_nodes r) = length ns \<and>
           (\<forall>i < length ns. (res_nodes r ! i)\<lparr>fn_position := fn_position (ns ! i)\<rparr> = ns ! i) \<and>
           res_edges r = es"
  using assms by (simp add: applyDagreLayout_cases)

theorem layout_keeps_nodes_and_edges_witness:
  "stubDagre (graphLabel None) (setNodeCalls [spanNode ''A'', spanNode ''B''])
       (setEdgeCalls [callEdge ''e1'' ''A'' ''B'']) =
     Inr (map_of [(''A'', \<lparr>width = 220, height = 80, label_x = 130, label_y = 60\<rparr>),
                  (''B'', \<lparr>width = 220, height = 80, label_x = 130, label_y = 60\<rparr>)]) \<and>
   fn_id ` set [spanNode ''A'', spanNode ''B''] \<subseteq>
     dom (map_of [(''A'', \<lparr>width = 220, height = 80, label_x = 130, label_y = 60\<rparr>),
                  (''B'', \<lparr>width = 220, height = 80, label_x = 130, label_y = 60\<rparr>)]) \<and>
   (\<exists>r. applyDagreLayout stubDagre [spanNode ''A'', spanNode ''B'']
           [callEdge ''e1'' ''A'' ''B''] None = Inr r \<and>
        length (res_nodes r) = 2 \<and>
        (res_nodes r ! 0)\<lparr>fn_position := fn_position (spanNode ''A'')\<rparr> = spanNode ''A'' \<and>
        (res_nodes r ! 1)\<lparr>fn_position := fn_position (spanNode ''B'')\<rparr> = spanNode ''B'' \<and>
        res_edges r = [callEdge ''e1'' ''A'' ''B''])"
proof -
  have lib: "stubDagre (graphLabel None) (setNodeCalls [spanNode ''A'', spanNode ''B''])
       (setEdgeCalls [callEdge ''e1'' ''A'' ''B'']) =
     Inr (map_of [(''A'', \<lparr>width = 220, height = 80, label_x = 130, label_y = 60\<rparr>),
                  (''B'', \<lparr>width = 220, height = 80, label_x = 130, label_y = 60\<rparr>)])"
    by (simp add: stubDagre_def graphLabel_def setNodeCalls_def NODE_WIDTH_def NODE_HEIGHT_def
          spanNode_def)
  have labelled: "fn_id ` set [spanNode ''A'', spanNode ''B''] \<subseteq>
     dom (map_of [(''A'', \<lparr>width = 220, height = 80, label_x = 130, label_y = 60\<rparr>),
                  (''B'', \<lparr>width = 220, height = 80, label_x = 130, label_y = 60\<rparr>)])"
    by (simp add: spanNode_def)
  from layout_keeps_nodes_and_edges
      [of stubDagre None "[spanNode ''A'', spanNode ''B'']"
          "[callEdge ''e1'' ''A'' ''B'']"
          "map_of [(''A'', \<lparr>width = 220, height = 80, label_x = 130, label_y = 60\<rparr>),
                   (''B'', \<lparr>width = 220, height = 80, label_x = 130, label_y = 60\<rparr>)]",
        OF lib labelled]
  obtain r where r: "applyDagreLayout stubDagre [spanNode ''A'', spanNode ''B'']
           [callEdge ''e1'' ''A'' ''B''] None = Inr r"
      "length (res_nodes r) = length [spanNode ''A'', spanNode ''B'']"
      "\<forall>i < length [spanNode ''A'', spanNode ''B''].
          (res_nodes r ! i)\<lparr>fn_position := fn_position ([spanNode ''A'', spanNode ''B''] ! i)\<rparr> =
            [spanNode ''A'', spanNode ''B''] ! i"
      "res_edges r = [callEdge ''e1'' ''A'' ''B'']"
    by blast
  from r(3) [rule_format, of 0]
  have first: "(res_nodes r ! 0)\<lparr>fn_position := fn_position (spanNode ''A'')\<rparr> = spanNode ''A''"
    by simp
  from r(3) [rule_format, of 1]
  have second: "(res_nodes r ! 1)\<lparr>fn_position := fn_position (spanNode ''B'')\<rparr> = spanNode ''B''"
    by simp
  from first second r(1,2,4) lib labelled show ?thesis by simp
qed

text \<open>
  Claim C5. The position of every returned node is the centre that the library reports
  for the node's id, minus half of the fixed footprint, 220 wide and 80 high, on each
  axis.
\<close>

theorem layout_positions_are_top_left:
  assumes "dagre (graphLabel options) (setNodeCalls ns) (setEdgeCalls es) = Inr nodeOf"
    and "fn_id ` set ns \<subseteq> dom nodeOf"
  shows "\<exists>r. applyDagreLayout dagre ns es options = Inr r \<and>
           map fn_position (res_nodes r) =
             map (\<lambda>node. \<lparr>pos_x = label_x (the (nodeOf (fn_id node))) - 220 / 2,
                           pos_y = label_y (the (nodeOf (fn_id node))) - 80 / 2\<rparr>) ns"
  using assms by (simp add: applyDagreLayout_cases)

theorem layout_positions_are_top_left_witness:
  "stubDagre (graphLabel None) (setNodeCalls [spanNode ''A'', spanNode ''B''])
       (setEdgeCalls [callEdge ''e1'' ''A'' ''B'']) =
     Inr (map_of [(''A'', \<lparr>width = 220, height = 80, label_x = 130, label_y = 60\<rparr>),
                  (''B'', \<lparr>width = 220, height = 80, label_x = 130, label_y = 60\<rparr>)]) \<and>
   fn_id ` set [spanNode ''A'', spanNode ''B''] \<subseteq>
     dom (map_of [(''A'', \<lparr>width = 220, height = 80, label_x = 130, label_y = 60\<rparr>),
                  (''B'', \<lparr>width = 220, height = 80, label_x = 130, label_y = 60\<rparr>)]) \<and>
   (\<exists>r. applyDagreLayout stubDagre [spanNode ''A'', spanNode ''B'']
           [callEdge ''e1'' ''A'' ''B''] None = Inr r \<and>
        map fn_position (res_nodes r) =
          [\<lparr>pos_x = 20, pos_y = 20\<rparr>, \<lparr>pos_x = 20, pos_y = 20\<rparr>])"
proof -
  have lib: "stubDagre (graphLabel None) (setNodeCalls [spanNode ''A'', spanNode ''B''])
       (setEdgeCalls [callEdge ''e1'' ''A'' ''B'']) =
     Inr (map_of [(''A'', \<lparr>width = 220, height = 80, label_x = 130, label_y = 60\<rparr>),
                  (''B'', \<lparr>width = 220, height = 80, label_x = 130, label_y = 60\<rparr>)])"
    by (simp add: stubDagre_def graphLabel_def setNodeCalls_def NODE_WIDTH_def NODE_HEIGHT_def
          spanNode_def)
  have labelled: "fn_id ` set [spanNode ''A'', spanNode ''B''] \<subseteq>
     dom (map_of [(''A'', \<lparr>width = 220, height = 80, label_x = 130, label_y = 60\<rparr>),
                  (''B'', \<lparr>width = 220, height = 80, label_x = 130, label_y = 60\<rparr>)])"
    by (simp add: spanNode_def)
  show ?thesis
    using lib labelled
      layout_positions_are_top_left
      [of stubDagre None "[spanNode ''A'', spanNode ''B'']"
          "[callEdge ''e1'' ''A'' ''B'']"
          "map_of [(''A'', \<lparr>width = 220, height = 80, label_x = 130, label_y = 60\<rparr>),
                   (''B'', \<lparr>width = 220, height = 80, label_x = 130, label_y = 60\<rparr>)]",
        OF lib labelled]
    by (simp add: spanNode_def)
qed

subsection \<open>The second entry point\<close>

text \<open>
  Claim C10. \<^verbatim>\<open>getLayoutedElements(nodes, edges, d)\<close> is
  \<^verbatim>\<open>applyDagreLayout(nodes, edges, {direction: d})\<close>, for \<^verbatim>\<open>'TB'\<close> and
  \<^verbatim>\<open>'LR'\<close> as for any other direction.
\<close>

theorem getLayoutedElements_is_applyDagreLayout:
  "getLayoutedElements dagre ns es (Some d) =
     applyDagreLayout dagre ns es
       (Some \<lparr>opt_direction = Some d, opt_nodeSpacing = None, opt_rankSpacing = None\<rparr>)"
  by (simp add: getLayoutedElements_def)

section \<open>Properties of the highlight overlay\<close>

text \<open>
  Setting a style property a second time to the same value changes nothing, and neither
  does setting \<^verbatim>\<open>stroke\<close> and \<^verbatim>\<open>strokeWidth\<close> a second time: after the
  first pass both keys are present, so the second pass replaces their values in place.
\<close>

lemma update_twice: "AList.update k v (AList.update k v al) = AList.update k v al"
  by (induction al) auto

lemma restyle_twice:
  assumes "k \<noteq> k'"
  shows "AList.update k' v' (AList.update k v (AList.update k' v' (AList.update k v al))) =
         AList.update k' v' (AList.update k v al)"
proof -
  have "map_of (AList.update k' v' (AList.update k v al)) k = Some v"
    using assms by (simp add: AList.update_conv')
  then have "AList.update k v (AList.update k' v' (AList.update k v al)) =
             AList.update k' v' (AList.update k v al)"
    by (rule AList.update_triv)
  then show ?thesis by (simp add: update_twice)
qed

lemma highlight_keeps_layout:
  "map rn_id (styledNodes highlightedNodes (rfNodes layoutedNs)) = map fn_id layoutedNs \<and>
   map rn_position (styledNodes highlightedNodes (rfNodes layoutedNs)) =
     map fn_position layoutedNs \<and>
   map (\<lambda>edge. (re_id edge, re_source edge, re_target edge))
       (styledEdges highlightedEdges (rfEdges layoutedEs)) =
     map (\<lambda>edge. (fe_id edge, fe_source edge, fe_target edge)) layoutedEs"
  by (simp add: styledNodes_def styledEdges_def rfNodes_def rfEdges_def comp_def)

text \<open>
  Claim C7. With no highlighted node id and no highlighted edge id, the overlay keeps
  the identifier and the position of every node and sets \<^verbatim>\<open>highlighted\<close> to
  \<^verbatim>\<open>false\<close> on each; it keeps the identifier, the two endpoints and the
  \<^verbatim>\<open>animated\<close> value of every edge and gives each the stroke and the stroke width
  of an edge that is not emphasized. On the edges that the canvas builds from a laid-out
  graph it changes nothing at all.
\<close>

theorem empty_highlight_noop:
  "map rn_id (styledNodes [] ns) = map rn_id ns \<and>
   map rn_position (styledNodes [] ns) = map rn_position ns \<and>
   map (\<lambda>node. highlighted (rn_data node)) (styledNodes [] ns) = replicate (length ns) (Some False) \<and>
   map re_id (styledEdges [] es) = map re_id es \<and>
   map re_source (styledEdges [] es) = map re_source es \<and>
   map re_target (styledEdges [] es) = map re_target es \<and>
   map re_animated (styledEdges [] es) = map re_animated es \<and>
   map (\<lambda>edge. map_option (\<lambda>style. (map_of style ''stroke'', map_of style ''strokeWidth''))
                  (re_style edge)) (styledEdges [] es) =
     replicate (length es) (Some (Some (CssString ''#30363d''), Some (CssNumber 2))) \<and>
   styledEdges [] (rfEdges layoutedEs) = rfEdges layoutedEs"
  by (simp add: styledNodes_def styledEdges_def rfEdges_def AList.update_conv'
        map_replicate_const comp_def)

text \<open>
  Claim C8. An output edge is animated exactly when its id is among the highlighted edge
  ids or the edge was animated before, the flag being read as JavaScript reads it
  (\<^verbatim>\<open>undefined\<close> counts as \<^verbatim>\<open>false\<close>). An edge that was animated stays
  animated when it is not highlighted.
\<close>

theorem animated_is_or:
  "map (\<lambda>edge. truthy (re_animated edge)) (styledEdges highlightedEdges es) =
   map (\<lambda>edge. re_id edge \<in> set highlightedEdges \<or> truthy (re_animated edge)) es"
  by (simp add: styledEdges_def truthy_def)

text \<open>
  Claim C9. Applying the overlay a second time with the same highlighted ids gives the
  nodes and edges of the first application.
\<close>

theorem highlight_idempotent:
  "styledNodes highlightedNodes (styledNodes highlightedNodes ns) = styledNodes highlightedNodes ns \<and>
   styledEdges highlightedEdges (styledEdges highlightedEdges es) = styledEdges highlightedEdges es"
  by (simp add: styledNodes_def styledEdges_def restyle_twice)

end
